theory Spec2Isabelle
  imports Main "HOL-Library.Word"
begin

unbundle bit_operations_syntax

section \<open>The text entry interface of wx/textentry.h\<close>

text \<open>
  The header declares the class \<open>wxTextEntryBase\<close>. Its inline member functions are
  embedded here as HOL functions over an explicit object state. A pure virtual member
  function, and a member function whose body is not in the header, is a parameter of every
  function that calls it (the parameter's name is the member's name with a leading \<open>v\<close>).
\<close>

subsection \<open>Data model\<close>

text \<open>\<open>typedef long wxTextPos\<close>: the header only passes positions on and compares them
  with constants, so a position is modelled by its integer value.\<close>

type_synonym wxTextPos = int

type_synonym wxString = string

text \<open>Modelled from the spec: the class \<open>wxTextEntryHintData\<close> is only forward-declared in
  the header; the spec describes the hint as an optional string owned by the entry.\<close>

datatype wxTextEntryHintData = HintData wxString

text \<open>
  The data members of \<open>wxTextEntryBase\<close>. \<open>m_eventsBlock\<close> is a C++ \<open>unsigned\<close>: a word
  whose width \<open>'w\<close> is left open, with wrap-around arithmetic. \<open>m_hintData\<close> is a pointer,
  \<open>NULL\<close> being \<open>None\<close>. The field \<open>widget\<close> holds the state of the derived class (the
  native control and the window owning it), on which the virtual member functions act;
  \<open>m_eventsBlock\<close> is private, so they cannot change it.
\<close>

record (overloaded) ('w, 'b) wxTextEntryBase =
  m_eventsBlock :: "'w::len word"
  m_hintData :: "wxTextEntryHintData option"
  widget :: 'b

text \<open>\<open>wxTextEntryBase() { m_eventsBlock = 0; m_hintData = NULL; }\<close>\<close>

definition wxTextEntryBase_ctor :: "'b \<Rightarrow> ('w::len, 'b) wxTextEntryBase" where
  "wxTextEntryBase_ctor b = \<lparr>m_eventsBlock = 0, m_hintData = None, widget = b\<rparr>"

text \<open>The flags of \<open>DoSetValue\<close> (an anonymous enum, passed as \<open>int\<close>).\<close>

definition SetValue_NoEvent :: int where
  "SetValue_NoEvent = 0"

definition SetValue_SendEvent :: int where
  "SetValue_SendEvent = 1"

definition SetValue_SelectionOnly :: int where
  "SetValue_SelectionOnly = 2"

subsection \<open>Suppressing text change events\<close>

text \<open>\<open>virtual void EnableTextChangedEvents(bool WXUNUSED(enable)) { }\<close>: the default
  of the backend hook does nothing.\<close>

definition EnableTextChangedEvents :: "bool \<Rightarrow> 'b \<Rightarrow> 'b" where
  "EnableTextChangedEvents enable b = b"

text \<open>\<open>bool EventsAllowed() const { return m_eventsBlock == 0; }\<close>\<close>

definition EventsAllowed :: "('w::len, 'b) wxTextEntryBase \<Rightarrow> bool" where
  "EventsAllowed s = (m_eventsBlock s = 0)"

text \<open>\<open>if ( !m_eventsBlock++ ) EnableTextChangedEvents(false);\<close>: the test reads the
  counter before the increment.\<close>

definition SuppressTextChangedEvents ::
  "(bool \<Rightarrow> 'b \<Rightarrow> 'b) \<Rightarrow> ('w::len, 'b) wxTextEntryBase \<Rightarrow> ('w, 'b) wxTextEntryBase" where
  "SuppressTextChangedEvents vEnableTextChangedEvents s =
     (let old = m_eventsBlock s;
          s' = s\<lparr>m_eventsBlock := old + 1\<rparr>
      in if old = 0
         then s'\<lparr>widget := vEnableTextChangedEvents False (widget s')\<rparr>
         else s')"

text \<open>\<open>if ( !--m_eventsBlock ) EnableTextChangedEvents(true);\<close>: the test reads the
  counter after the decrement.\<close>

definition ResumeTextChangedEvents ::
  "(bool \<Rightarrow> 'b \<Rightarrow> 'b) \<Rightarrow> ('w::len, 'b) wxTextEntryBase \<Rightarrow> ('w, 'b) wxTextEntryBase" where
  "ResumeTextChangedEvents vEnableTextChangedEvents s =
     (let s' = s\<lparr>m_eventsBlock := m_eventsBlock s - 1\<rparr>
      in if m_eventsBlock s' = 0
         then s'\<lparr>widget := vEnableTextChangedEvents True (widget s')\<rparr>
         else s')"

text \<open>
  The class \<open>EventsSuppressor\<close>. A guard object is represented by its field \<open>m_suppress\<close>;
  its field \<open>m_text\<close> points to the entry whose state is passed along. The constructor
  takes the value of \<open>suppress\<close> (\<open>true\<close> by default), the destructor the stored one.
\<close>

definition EventsSuppressor_ctor ::
  "(bool \<Rightarrow> 'b \<Rightarrow> 'b) \<Rightarrow> bool \<Rightarrow> ('w::len, 'b) wxTextEntryBase \<Rightarrow> ('w, 'b) wxTextEntryBase" where
  "EventsSuppressor_ctor vEnableTextChangedEvents suppress s =
     (if suppress then SuppressTextChangedEvents vEnableTextChangedEvents s else s)"

definition EventsSuppressor_dtor ::
  "(bool \<Rightarrow> 'b \<Rightarrow> 'b) \<Rightarrow> bool \<Rightarrow> ('w::len, 'b) wxTextEntryBase \<Rightarrow> ('w, 'b) wxTextEntryBase" where
  "EventsSuppressor_dtor vEnableTextChangedEvents m_suppress s =
     (if m_suppress then ResumeTextChangedEvents vEnableTextChangedEvents s else s)"

definition ForwardEnableTextChangedEvents ::
  "(bool \<Rightarrow> 'b \<Rightarrow> 'b) \<Rightarrow> bool \<Rightarrow> ('w::len, 'b) wxTextEntryBase \<Rightarrow> ('w, 'b) wxTextEntryBase" where
  "ForwardEnableTextChangedEvents vEnableTextChangedEvents enable s =
     (if enable then ResumeTextChangedEvents vEnableTextChangedEvents s
      else SuppressTextChangedEvents vEnableTextChangedEvents s)"

subsection \<open>Sending the text updated event\<close>

text \<open>
  \<open>bool SendTextUpdatedEvent() { return SendTextUpdatedEvent(GetEditableWindow()); }\<close>
  The static \<open>SendTextUpdatedEvent(wxWindow *win)\<close> is declared only and
  \<open>GetEditableWindow\<close> is pure virtual: both are parameters. The static function delivers
  the event to the window, which is part of the derived state, and tells whether it was
  processed.
\<close>

definition SendTextUpdatedEvent ::
  "('win \<Rightarrow> 'b \<Rightarrow> bool \<times> 'b) \<Rightarrow> ('b \<Rightarrow> 'win) \<Rightarrow> ('w::len, 'b) wxTextEntryBase
     \<Rightarrow> bool \<times> ('w, 'b) wxTextEntryBase" where
  "SendTextUpdatedEvent vSendTextUpdatedEvent vGetEditableWindow s =
     (let r = vSendTextUpdatedEvent (vGetEditableWindow (widget s)) (widget s)
      in (fst r, s\<lparr>widget := snd r\<rparr>))"

text \<open>\<open>if ( EventsAllowed() ) SendTextUpdatedEvent();\<close>\<close>

definition SendTextUpdatedEventIfAllowed ::
  "('win \<Rightarrow> 'b \<Rightarrow> bool \<times> 'b) \<Rightarrow> ('b \<Rightarrow> 'win) \<Rightarrow> ('w::len, 'b) wxTextEntryBase
     \<Rightarrow> ('w, 'b) wxTextEntryBase" where
  "SendTextUpdatedEventIfAllowed vSendTextUpdatedEvent vGetEditableWindow s =
     (if EventsAllowed s
      then snd (SendTextUpdatedEvent vSendTextUpdatedEvent vGetEditableWindow s)
      else s)"

subsection \<open>Accessing the value, editing, auto-completion\<close>

text \<open>\<open>SetValue\<close> and \<open>ChangeValue\<close> call the virtual \<open>DoSetValue\<close>, whose body is not
  in the header.\<close>

definition SetValue :: "(wxString \<Rightarrow> int \<Rightarrow> 's \<Rightarrow> 's) \<Rightarrow> wxString \<Rightarrow> 's \<Rightarrow> 's" where
  "SetValue vDoSetValue val s = vDoSetValue val SetValue_SendEvent s"

definition ChangeValue :: "(wxString \<Rightarrow> int \<Rightarrow> 's \<Rightarrow> 's) \<Rightarrow> wxString \<Rightarrow> 's \<Rightarrow> 's" where
  "ChangeValue vDoSetValue val s = vDoSetValue val SetValue_NoEvent s"

text \<open>\<open>bool IsEmpty() const { return GetLastPosition() <= 0; }\<close>\<close>

definition IsEmpty :: "('s \<Rightarrow> wxTextPos) \<Rightarrow> 's \<Rightarrow> bool" where
  "IsEmpty vGetLastPosition s = (vGetLastPosition s \<le> 0)"

text \<open>\<open>virtual void Clear() { SetValue(wxString()); }\<close>: a call of the virtual
  \<open>SetValue\<close> with the empty string.\<close>

definition Clear :: "(wxString \<Rightarrow> 's \<Rightarrow> 's) \<Rightarrow> 's \<Rightarrow> 's" where
  "Clear vSetValue s = vSetValue [] s"

definition SetInsertionPointEnd :: "(wxTextPos \<Rightarrow> 's \<Rightarrow> 's) \<Rightarrow> 's \<Rightarrow> 's" where
  "SetInsertionPointEnd vSetInsertionPoint s = vSetInsertionPoint (- 1) s"

definition SelectAll :: "(wxTextPos \<Rightarrow> wxTextPos \<Rightarrow> 's \<Rightarrow> 's) \<Rightarrow> 's \<Rightarrow> 's" where
  "SelectAll vSetSelection s = vSetSelection (- 1) (- 1) s"

text \<open>The default auto-completion functions return \<open>false\<close>; the state is returned with
  the result, unchanged.\<close>

definition AutoComplete :: "wxString list \<Rightarrow> 's \<Rightarrow> bool \<times> 's" where
  "AutoComplete choices s = (False, s)"

definition AutoCompleteFileNames :: "'s \<Rightarrow> bool \<times> 's" where
  "AutoCompleteFileNames s = (False, s)"

subsection \<open>A derived class that records the calls it receives\<close>

text \<open>
  To state when a virtual function is called, the derived state is instantiated with the
  list of calls received so far: the override of \<open>EnableTextChangedEvents\<close> and the
  delivery of the text updated event each append an entry. No handler processes the
  event, so the delivery returns \<open>false\<close>.
\<close>

datatype call = EnableTextChangedEvents_call bool | TextUpdatedEvent_call

definition log_EnableTextChangedEvents :: "bool \<Rightarrow> call list \<Rightarrow> call list" where
  "log_EnableTextChangedEvents enable calls = calls @ [EnableTextChangedEvents_call enable]"

definition log_SendTextUpdatedEvent :: "unit \<Rightarrow> call list \<Rightarrow> bool \<times> call list" where
  "log_SendTextUpdatedEvent win calls = (False, calls @ [TextUpdatedEvent_call])"

definition log_GetEditableWindow :: "call list \<Rightarrow> unit" where
  "log_GetEditableWindow calls = ()"

subsection \<open>The native control and the member functions without a body\<close>

text \<open>
  The members below are pure virtual in the header (\<open>WriteText\<close>, \<open>Remove\<close>,
  \<open>SetInsertionPoint\<close>, \<open>GetEditableWindow\<close>) or declared there without
  a body (\<open>DoSetValue\<close>, \<open>Replace\<close>, the static \<open>SendTextUpdatedEvent\<close>). They are modelled
  from the specification of the interface; each definition says what it follows.
\<close>

text \<open>Modelled from the spec: the state behind the pure virtual members. The text buffer
  is a character sequence owned by the backend; the selection is a pair of positions, a
  degenerate range \<open>[pos, pos)\<close> standing for the insertion point alone; the owning window
  receives the change notifications, which are counted here.\<close>

record text_ctrl =
  buffer :: wxString
  sel_from :: nat
  sel_to :: nat
  notifications :: nat


text \<open>Modelled from the spec: \<open>GetEditableWindow\<close> (pure virtual) returns the one window
  owning the control.\<close>

definition GetEditableWindow :: "text_ctrl \<Rightarrow> unit" where
  "GetEditableWindow c = ()"

text \<open>Modelled from the spec: the static \<open>SendTextUpdatedEvent(window)\<close>, whose body is
  missing, synchronously dispatches one change notification to the window and returns
  whether a listener handled it; no listener is modelled, so the result is \<open>false\<close>.\<close>

definition SendTextUpdatedEvent_win :: "unit \<Rightarrow> text_ctrl \<Rightarrow> bool \<times> text_ctrl" where
  "SendTextUpdatedEvent_win win c = (False, c\<lparr>notifications := Suc (notifications c)\<rparr>)"





text \<open>Modelled from the spec: \<open>DoSetValue(value, flags)\<close>, the common part of \<open>SetValue\<close> and
  \<open>ChangeValue\<close>, whose body is missing. It replaces the entire content; with the flag
  \<open>SetValue_SendEvent\<close> it emits one change notification unless notifications are
  suppressed, without the flag it emits none. The selection is clamped to the new content.\<close>

definition DoSetValue ::
  "wxString \<Rightarrow> int \<Rightarrow> ('w::len, text_ctrl) wxTextEntryBase \<Rightarrow> ('w, text_ctrl) wxTextEntryBase" where
  "DoSetValue val flags s =
     (let c = widget s;
          c' = c\<lparr>buffer := val,
                 sel_from := min (length val) (sel_from c),
                 sel_to := min (length val) (sel_to c)\<rparr>;
          s' = s\<lparr>widget := c'\<rparr>
      in if flags AND SetValue_SendEvent \<noteq> 0
         then SendTextUpdatedEventIfAllowed SendTextUpdatedEvent_win GetEditableWindow s'
         else s')"


section \<open>Properties\<close>

subsection \<open>The suppression counter\<close>

lemma m_eventsBlock_Suppress:
  "m_eventsBlock (SuppressTextChangedEvents h s) = m_eventsBlock s + 1"
  by (simp add: SuppressTextChangedEvents_def Let_def)

lemma m_eventsBlock_Resume:
  "m_eventsBlock (ResumeTextChangedEvents h s) = m_eventsBlock s - 1"
  by (simp add: ResumeTextChangedEvents_def Let_def)

lemma widget_Suppress:
  "widget (SuppressTextChangedEvents h s) =
     (if m_eventsBlock s = 0 then h False (widget s) else widget s)"
  by (simp add: SuppressTextChangedEvents_def Let_def)

lemma widget_Resume:
  "widget (ResumeTextChangedEvents h s) =
     (if m_eventsBlock s = 1 then h True (widget s) else widget s)"
  by (simp add: ResumeTextChangedEvents_def Let_def)

lemma m_eventsBlock_guard:
  "m_eventsBlock (EventsSuppressor_ctor h True s) = m_eventsBlock s + 1"
  "m_eventsBlock (EventsSuppressor_dtor h True s) = m_eventsBlock s - 1"
  by (simp_all add: EventsSuppressor_ctor_def EventsSuppressor_dtor_def
      m_eventsBlock_Suppress m_eventsBlock_Resume)

text \<open>
  C9: a newly constructed entry has the counter zero and no hint data, and events are
  allowed on it without any call.
\<close>

theorem ctor_events_allowed:
  "m_eventsBlock (wxTextEntryBase_ctor b) = 0
   \<and> m_hintData (wxTextEntryBase_ctor b) = None
   \<and> EventsAllowed (wxTextEntryBase_ctor b)"
  by (simp add: wxTextEntryBase_ctor_def EventsAllowed_def)

text \<open>
  C3, as the code has it: the guard counts. From a state with counter \<open>c\<close>, two
  acquisitions and one release leave the counter at \<open>c + 1\<close> and a second release brings it
  back to \<open>c\<close>, so events are allowed after it exactly if they were allowed at the start.
  Starting with events allowed (counter zero), the counter goes to 2, the first release
  takes it to 1 with events still suppressed, and the second release takes it to 0, where
  \<open>EventsAllowed\<close> is true again.
\<close>

theorem nested_suppression_counted:
  fixes s :: "('w::len, 'b) wxTextEntryBase"
    and h :: "bool \<Rightarrow> 'b \<Rightarrow> 'b"
  defines "s2 \<equiv> EventsSuppressor_ctor h True (EventsSuppressor_ctor h True s)"
  defines "s3 \<equiv> EventsSuppressor_dtor h True s2"
  defines "s4 \<equiv> EventsSuppressor_dtor h True s3"
  shows "m_eventsBlock s3 = m_eventsBlock s + 1
     \<and> m_eventsBlock s4 = m_eventsBlock s
     \<and> EventsAllowed s4 = EventsAllowed s
     \<and> (m_eventsBlock s = 0 \<longrightarrow>
          m_eventsBlock s2 = 2 \<and> m_eventsBlock s3 = 1 \<and> \<not> EventsAllowed s3
          \<and> m_eventsBlock s4 = 0 \<and> EventsAllowed s4)"
  by (simp add: s2_def s3_def s4_def m_eventsBlock_guard EventsAllowed_def)

theorem nested_suppression_counted_witness:
  "m_eventsBlock \<lparr>m_eventsBlock = 0 :: 32 word, m_hintData = None, widget = ()\<rparr> = 0
   \<and> \<not> EventsAllowed
        (EventsSuppressor_dtor EnableTextChangedEvents True
          (EventsSuppressor_ctor EnableTextChangedEvents True
            (EventsSuppressor_ctor EnableTextChangedEvents True
              \<lparr>m_eventsBlock = 0 :: 32 word, m_hintData = None, widget = ()\<rparr>)))
   \<and> EventsAllowed
        (EventsSuppressor_dtor EnableTextChangedEvents True
          (EventsSuppressor_dtor EnableTextChangedEvents True
            (EventsSuppressor_ctor EnableTextChangedEvents True
              (EventsSuppressor_ctor EnableTextChangedEvents True
                \<lparr>m_eventsBlock = 0 :: 32 word, m_hintData = None, widget = ()\<rparr>))))"
proof -
  have h: "m_eventsBlock \<lparr>m_eventsBlock = 0 :: 32 word, m_hintData = None, widget = ()\<rparr> = 0"
    by simp
  show ?thesis
    using h nested_suppression_counted
      [where s = "\<lparr>m_eventsBlock = 0 :: 32 word, m_hintData = None, widget = ()\<rparr>"
         and h = EnableTextChangedEvents]
    by blast
qed

text \<open>Inside an outer guard (counter 1) the second release does not restore delivery.\<close>

theorem nested_suppression_counterexample:
  "\<not> EventsAllowed
      (EventsSuppressor_dtor EnableTextChangedEvents True
        (EventsSuppressor_dtor EnableTextChangedEvents True
          (EventsSuppressor_ctor EnableTextChangedEvents True
            (EventsSuppressor_ctor EnableTextChangedEvents True
              \<lparr>m_eventsBlock = 1 :: 32 word, m_hintData = None, widget = ()\<rparr>))))"
  by (simp add: EventsAllowed_def m_eventsBlock_guard)

text \<open>
  C4: with a backend that records the calls of its hook, \<open>SuppressTextChangedEvents\<close> calls
  \<open>EnableTextChangedEvents(false)\<close> exactly when the counter was zero before the increment,
  and \<open>ResumeTextChangedEvents\<close> calls \<open>EnableTextChangedEvents(true)\<close> exactly when the counter
  is zero after the decrement, which is when it was one before; at every other value of the
  counter neither function calls the hook.
\<close>

theorem EnableTextChangedEvents_only_at_boundaries:
  fixes s :: "('w::len, call list) wxTextEntryBase"
  shows "widget (SuppressTextChangedEvents log_EnableTextChangedEvents s)
       = widget s @ (if m_eventsBlock s = 0 then [EnableTextChangedEvents_call False] else [])
     \<and> m_eventsBlock (SuppressTextChangedEvents log_EnableTextChangedEvents s)
       = m_eventsBlock s + 1
     \<and> widget (ResumeTextChangedEvents log_EnableTextChangedEvents s)
       = widget s @
         (if m_eventsBlock (ResumeTextChangedEvents log_EnableTextChangedEvents s) = 0
          then [EnableTextChangedEvents_call True] else [])
     \<and> m_eventsBlock (ResumeTextChangedEvents log_EnableTextChangedEvents s)
       = m_eventsBlock s - 1
     \<and> (m_eventsBlock (ResumeTextChangedEvents log_EnableTextChangedEvents s) = 0)
       = (m_eventsBlock s = 1)"
  by (simp add: widget_Suppress widget_Resume m_eventsBlock_Suppress m_eventsBlock_Resume
      log_EnableTextChangedEvents_def)

text \<open>
  C5: \<open>SendTextUpdatedEventIfAllowed\<close> is \<open>SendTextUpdatedEvent\<close> when the counter is zero and
  does nothing otherwise; on a window that records the events it receives, one event is
  recorded if the counter is zero and none if it is not.
\<close>

theorem SendTextUpdatedEventIfAllowed_iff_counter_zero:
  fixes s :: "('w::len, 'b) wxTextEntryBase"
    and t :: "('v::len, call list) wxTextEntryBase"
  shows "SendTextUpdatedEventIfAllowed vSend vWindow s
       = (if m_eventsBlock s = 0 then snd (SendTextUpdatedEvent vSend vWindow s) else s)
     \<and> widget (SendTextUpdatedEventIfAllowed log_SendTextUpdatedEvent log_GetEditableWindow t)
       = widget t @ (if m_eventsBlock t = 0 then [TextUpdatedEvent_call] else [])"
  by (simp add: SendTextUpdatedEventIfAllowed_def EventsAllowed_def SendTextUpdatedEvent_def
      log_SendTextUpdatedEvent_def)

text \<open>
  C7: \<open>IsEmpty()\<close> is true exactly when \<open>GetLastPosition()\<close> is at most 0, whatever the
  backend returns as last position.
\<close>

theorem IsEmpty_iff_last_position:
  "IsEmpty vGetLastPosition s = (vGetLastPosition s \<le> 0)"
  by (simp add: IsEmpty_def)

text \<open>
  C8: the default \<open>AutoComplete\<close> and \<open>AutoCompleteFileNames\<close> return false for every input
  and leave the state as it is.
\<close>

theorem AutoComplete_unsupported:
  "fst (AutoComplete choices s) = False \<and> snd (AutoComplete choices s) = s
   \<and> fst (AutoCompleteFileNames s) = False \<and> snd (AutoCompleteFileNames s) = s"
  by (simp add: AutoComplete_def AutoCompleteFileNames_def)

subsection \<open>Releasing once too often\<close>

lemma m_eventsBlock_Resume_funpow:
  "m_eventsBlock ((ResumeTextChangedEvents h ^^ k) s) = m_eventsBlock s - of_nat k"
  by (induction k) (simp_all add: m_eventsBlock_Resume)

lemma widget_Resume_funpow:
  "(\<And>j. j < k \<Longrightarrow> m_eventsBlock s - of_nat j \<noteq> 1) \<Longrightarrow>
   widget ((ResumeTextChangedEvents h ^^ k) s) = widget s"
proof (induction k)
  case 0
  show ?case by simp
next
  case (Suc k)
  have "widget ((ResumeTextChangedEvents h ^^ k) s) = widget s"
    using Suc by simp
  moreover have "m_eventsBlock ((ResumeTextChangedEvents h ^^ k) s) \<noteq> 1"
    using Suc.prems [of k] by (simp add: m_eventsBlock_Resume_funpow)
  ultimately show ?case
    by (simp add: widget_Resume)
qed

lemma max_minus_eq_0:
  "(- 1 - of_nat k :: 'w::len word) = 0 \<longleftrightarrow> (of_nat (Suc k) :: 'w word) = 0"
proof -
  have "(- 1 - of_nat k :: 'w word) = - of_nat (Suc k)"
    by simp
  then show ?thesis
    by (simp only: neg_equal_0_iff_equal)
qed

lemma max_minus_eq_1:
  "(- 1 - of_nat k :: 'w::len word) = 1 \<longleftrightarrow> (of_nat (Suc (Suc k)) :: 'w word) = 0"
proof -
  have "(- 1 - of_nat k :: 'w word) = 1 \<longleftrightarrow> (- 1 - of_nat k - 1 :: 'w word) = 0"
    by (simp only: right_minus_eq)
  also have "(- 1 - of_nat k - 1 :: 'w word) = - of_nat (Suc (Suc k))"
    by simp
  finally show ?thesis
    by (simp only: neg_equal_0_iff_equal)
qed

lemma max_minus_neq_0:
  "k < 2 ^ LENGTH('w) - 1 \<Longrightarrow> (- 1 - of_nat k :: 'w::len word) \<noteq> 0"
  by (simp only: max_minus_eq_0) (rule of_nat_neq_0, simp_all)

lemma max_minus_neq_1:
  "k < 2 ^ LENGTH('w) - 2 \<Longrightarrow> (- 1 - of_nat k :: 'w::len word) \<noteq> 1"
  by (simp only: max_minus_eq_1) (rule of_nat_neq_0, simp_all)

text \<open>
  C10: the counter is unsigned, so \<open>ResumeTextChangedEvents\<close> at counter zero wraps it to
  the maximum \<open>2^w - 1\<close>: the hook is not called and events are not allowed. They stay
  suppressed, with no call of the hook, through any \<open>k < 2^w - 1\<close> further releases; the
  release number \<open>2^w - 1\<close> brings the counter to zero and calls
  \<open>EnableTextChangedEvents(true)\<close>.
\<close>

theorem Resume_at_zero_wraps:
  fixes s :: "('w::len, call list) wxTextEntryBase"
  assumes zero: "m_eventsBlock s = 0"
    and k: "k < 2 ^ LENGTH('w) - 1"
  defines "s1 \<equiv> ResumeTextChangedEvents log_EnableTextChangedEvents s"
  shows "m_eventsBlock s1 = - 1
     \<and> unat (m_eventsBlock s1) = 2 ^ LENGTH('w) - 1
     \<and> widget s1 = widget s
     \<and> \<not> EventsAllowed s1
     \<and> \<not> EventsAllowed ((ResumeTextChangedEvents log_EnableTextChangedEvents ^^ k) s1)
     \<and> widget ((ResumeTextChangedEvents log_EnableTextChangedEvents ^^ k) s1) = widget s
     \<and> EventsAllowed
         ((ResumeTextChangedEvents log_EnableTextChangedEvents ^^ (2 ^ LENGTH('w) - 1)) s1)
     \<and> widget ((ResumeTextChangedEvents log_EnableTextChangedEvents ^^ (2 ^ LENGTH('w) - 1)) s1)
         = widget s @ [EnableTextChangedEvents_call True]"
proof -
  let ?R = "ResumeTextChangedEvents log_EnableTextChangedEvents"
  let ?n = "2 ^ LENGTH('w) - (2::nat)"
  have c1: "m_eventsBlock s1 = - 1"
    by (simp add: s1_def m_eventsBlock_Resume zero)
  have u1: "unat (m_eventsBlock s1) = 2 ^ LENGTH('w) - 1"
    by (simp add: c1 unsigned_minus_1_eq_mask mask_eq_exp_minus_1)
  have w1: "widget s1 = widget s"
    by (simp add: s1_def widget_Resume zero)
  have a1: "\<not> EventsAllowed s1"
    by (simp add: EventsAllowed_def c1)
  have ak: "\<not> EventsAllowed ((?R ^^ k) s1)"
    using max_minus_neq_0 [OF k]
    by (simp add: EventsAllowed_def m_eventsBlock_Resume_funpow c1)
  have wj: "widget ((?R ^^ j) s1) = widget s" if "j \<le> ?n" for j
  proof -
    have "m_eventsBlock s1 - of_nat i \<noteq> 1" if "i < j" for i
    proof -
      have "i < ?n" using \<open>i < j\<close> \<open>j \<le> ?n\<close> by simp
      then show ?thesis
        by (simp only: c1 max_minus_neq_1 not_False_eq_True)
    qed
    then show ?thesis
      by (simp add: widget_Resume_funpow w1)
  qed
  have wk: "widget ((?R ^^ k) s1) = widget s"
    using k by (intro wj) simp
  have "(2::nat) ^ 1 \<le> 2 ^ LENGTH('w)"
    by (rule power_increasing) (simp_all add: Suc_leI)
  then have two: "(2::nat) \<le> 2 ^ LENGTH('w)"
    by simp
  then have n: "2 ^ LENGTH('w) - 1 = Suc ?n"
    by simp
  have cn: "m_eventsBlock ((?R ^^ ?n) s1) = 1"
  proof -
    have "(of_nat ?n :: 'w word) = of_nat (2 ^ LENGTH('w)) - 2"
      using two by simp
    then have "(of_nat ?n :: 'w word) = - 2"
      by simp
    then show ?thesis
      by (simp add: m_eventsBlock_Resume_funpow c1)
  qed
  have an: "EventsAllowed ((?R ^^ (2 ^ LENGTH('w) - 1)) s1)"
    by (simp only: n funpow.simps o_apply EventsAllowed_def m_eventsBlock_Resume cn) simp
  have wn: "widget ((?R ^^ (2 ^ LENGTH('w) - 1)) s1)
      = widget s @ [EnableTextChangedEvents_call True]"
    by (simp only: n funpow.simps o_apply widget_Resume cn wj [OF order_refl])
      (simp add: log_EnableTextChangedEvents_def)
  from c1 u1 w1 a1 ak wk an wn show ?thesis
    by simp
qed

theorem Resume_at_zero_wraps_witness:
  "m_eventsBlock \<lparr>m_eventsBlock = 0 :: 32 word, m_hintData = None, widget = []\<rparr> = 0
   \<and> (3 :: nat) < 2 ^ LENGTH(32) - 1
   \<and> unat (m_eventsBlock (ResumeTextChangedEvents log_EnableTextChangedEvents
        \<lparr>m_eventsBlock = 0 :: 32 word, m_hintData = None, widget = []\<rparr>)) = 4294967295
   \<and> \<not> EventsAllowed ((ResumeTextChangedEvents log_EnableTextChangedEvents ^^ 3)
        (ResumeTextChangedEvents log_EnableTextChangedEvents
          \<lparr>m_eventsBlock = 0 :: 32 word, m_hintData = None, widget = []\<rparr>))
   \<and> widget ((ResumeTextChangedEvents log_EnableTextChangedEvents ^^ 4294967295)
        (ResumeTextChangedEvents log_EnableTextChangedEvents
          \<lparr>m_eventsBlock = 0 :: 32 word, m_hintData = None, widget = []\<rparr>))
       = [EnableTextChangedEvents_call True]"
proof -
  have h: "m_eventsBlock \<lparr>m_eventsBlock = 0 :: 32 word, m_hintData = None, widget = []\<rparr> = 0"
    by simp
  have k: "(3 :: nat) < 2 ^ LENGTH(32) - 1"
    by simp
  have n: "(2 :: nat) ^ LENGTH(32) - 1 = 4294967295"
    by simp
  have w: "widget \<lparr>m_eventsBlock = 0 :: 32 word, m_hintData = None, widget = []\<rparr>
      @ [EnableTextChangedEvents_call True] = [EnableTextChangedEvents_call True]"
    by simp
  show ?thesis
    using h k Resume_at_zero_wraps [OF h k, unfolded n w]
    by blast
qed

subsection \<open>Setting and replacing the value\<close>

lemma notify:
  "snd (SendTextUpdatedEvent SendTextUpdatedEvent_win GetEditableWindow s)
     = s\<lparr>widget := (widget s)\<lparr>notifications := Suc (notifications (widget s))\<rparr>\<rparr>"
  by (simp add: SendTextUpdatedEvent_def SendTextUpdatedEvent_win_def)

lemma notify_if_allowed:
  "SendTextUpdatedEventIfAllowed SendTextUpdatedEvent_win GetEditableWindow s
     = (if m_eventsBlock s = 0
        then s\<lparr>widget := (widget s)\<lparr>notifications := Suc (notifications (widget s))\<rparr>\<rparr>
        else s)"
  by (simp add: SendTextUpdatedEventIfAllowed_def EventsAllowed_def notify)

lemma DoSetValue_SendEvent:
  "DoSetValue val SetValue_SendEvent s =
     SendTextUpdatedEventIfAllowed SendTextUpdatedEvent_win GetEditableWindow
       (DoSetValue val SetValue_NoEvent s)"
  by (simp add: DoSetValue_def Let_def SetValue_SendEvent_def SetValue_NoEvent_def)

lemma DoSetValue_NoEvent_fields:
  "m_eventsBlock (DoSetValue val SetValue_NoEvent s) = m_eventsBlock s"
  "buffer (widget (DoSetValue val SetValue_NoEvent s)) = val"
  "notifications (widget (DoSetValue val SetValue_NoEvent s)) = notifications (widget s)"
  by (simp_all add: DoSetValue_def Let_def SetValue_NoEvent_def)

lemma DoSetValue_SendEvent_fields:
  "m_eventsBlock (DoSetValue val SetValue_SendEvent s) = m_eventsBlock s"
  "buffer (widget (DoSetValue val SetValue_SendEvent s)) = val"
  "notifications (widget (DoSetValue val SetValue_SendEvent s))
     = (if m_eventsBlock s = 0 then Suc (notifications (widget s)) else notifications (widget s))"
  by (simp_all add: DoSetValue_SendEvent notify_if_allowed DoSetValue_NoEvent_fields)

lemma DoSetValue_NoEvent_SendEvent:
  "DoSetValue val SetValue_NoEvent s =
     (DoSetValue val SetValue_SendEvent s)
       \<lparr>widget := (widget (DoSetValue val SetValue_SendEvent s))
          \<lparr>notifications := notifications (widget s)\<rparr>\<rparr>"
  by (simp add: DoSetValue_SendEvent notify_if_allowed DoSetValue_NoEvent_fields)

text \<open>
  C1: \<open>SetValue\<close> is \<open>DoSetValue\<close> with \<open>SetValue_SendEvent\<close> and \<open>ChangeValue\<close> is \<open>DoSetValue\<close>
  with \<open>SetValue_NoEvent\<close>, for any \<open>DoSetValue\<close>. With the \<open>DoSetValue\<close> of the specification,
  \<open>SetValue(T)\<close> makes \<open>T\<close> the whole content and emits exactly one change notification
  when events are allowed (none when they are suppressed); \<open>ChangeValue(T)\<close> makes \<open>T\<close> the
  whole content too and emits none; the two results differ in the notification only.
\<close>

theorem SetValue_notifies_ChangeValue_silent:
  fixes t :: "('w::len, text_ctrl) wxTextEntryBase"
  shows "SetValue vDoSetValue T s = vDoSetValue T SetValue_SendEvent s
     \<and> ChangeValue vDoSetValue T s = vDoSetValue T SetValue_NoEvent s
     \<and> buffer (widget (SetValue DoSetValue T t)) = T
     \<and> notifications (widget (SetValue DoSetValue T t))
       = (if EventsAllowed t then Suc (notifications (widget t)) else notifications (widget t))
     \<and> buffer (widget (ChangeValue DoSetValue T t)) = T
     \<and> notifications (widget (ChangeValue DoSetValue T t)) = notifications (widget t)
     \<and> ChangeValue DoSetValue T t
       = (SetValue DoSetValue T t)
           \<lparr>widget := (widget (SetValue DoSetValue T t))
              \<lparr>notifications := notifications (widget t)\<rparr>\<rparr>"
  unfolding SetValue_def ChangeValue_def EventsAllowed_def
  by (simp only: DoSetValue_SendEvent_fields DoSetValue_NoEvent_fields
      DoSetValue_NoEvent_SendEvent [symmetric] simp_thms)

text \<open>
  C6: \<open>Clear()\<close> is the call \<open>SetValue(wxString())\<close>, for any \<open>DoSetValue\<close>. With the
  \<open>DoSetValue\<close> of the specification, both leave the buffer empty and emit exactly one
  change notification when events are allowed, none when they are suppressed.
\<close>

theorem Clear_is_SetValue_empty:
  fixes t :: "('w::len, text_ctrl) wxTextEntryBase"
  shows "Clear (SetValue vDoSetValue) s = SetValue vDoSetValue [] s
     \<and> buffer (widget (Clear (SetValue DoSetValue) t)) = []
     \<and> notifications (widget (Clear (SetValue DoSetValue) t))
       = (if EventsAllowed t then Suc (notifications (widget t)) else notifications (widget t))
     \<and> buffer (widget (SetValue DoSetValue [] t)) = []
     \<and> notifications (widget (SetValue DoSetValue [] t))
       = (if EventsAllowed t then Suc (notifications (widget t)) else notifications (widget t))"
  unfolding Clear_def SetValue_def EventsAllowed_def
  by (simp only: DoSetValue_SendEvent_fields simp_thms)














end
